theory Spec2Isabelle
  imports Main "HOL-Library.Char_ord" "HOL-Library.List_Lexorder"
begin

section \<open>The Tiingo news catalog sync job (DataProcessing/sync-tiingonews.py)\<close>

text \<open>
  The script is one linear module: it reads the API key from the environment, creates the
  raw data folder, fetches the provider's catalog of bulk files, filters and de-duplicates
  the catalog, subtracts the files already present and a fixed list of known missing
  files, and downloads the rest one by one. The model below follows the script line by
  line. Everything outside the script (the process environment, the network, the file
  system, the two date parsers and the iteration order of a Python set) is an explicit
  input.
\<close>

subsection \<open>Data\<close>

text \<open>
  A calendar day, as \<^verbatim>\<open>datetime.date\<close> orders it (its proleptic ordinal,
  \<^verbatim>\<open>date.toordinal()\<close>).
\<close>

type_synonym date = int

text \<open>
  A cell of the \<^verbatim>\<open>startDate\<close> or \<^verbatim>\<open>endDate\<close> column: the string of the
  JSON response, or the \<^verbatim>\<open>date\<close> object lines 36 and 37 put in its place.
\<close>

datatype cell = Raw string | Day date

text \<open>
  One row of the DataFrame built from the catalog response. The column \<^verbatim>\<open>id\<close> (the
  index after line 25) is the field \<open>rec_id\<close>.
\<close>

record catalog_record =
  rec_id :: int
  filename :: string
  url :: string
  batchType :: string
  startDate :: cell
  endDate :: cell

text \<open>
  The exceptions the script can end with. \<^verbatim>\<open>HTTPError\<close> carries the HTTP status code;
  in \<^verbatim>\<open>urllib.error\<close> it is a subclass of \<^verbatim>\<open>URLError\<close>, and
  \<^verbatim>\<open>except HTTPError\<close> catches it alone, whatever the code.
  \<open>Unmodelled_path\<close> is not a Python exception: it marks the one place where the model
  stops, a download whose catalog filename is not a single path component (see
  \<open>plain_name\<close>).
\<close>

datatype exn =
  KeyError string
  | ValueError
  | IndexError
  | OSError
  | RequestException
  | HTTPError nat
  | URLError
  | ContentTooShortError
  | Unmodelled_path string

text \<open>
  What \<^verbatim>\<open>urlretrieve(url, destination_path)\<close> meets at a URL: the file is saved; or
  \<^verbatim>\<open>urlopen\<close> raises before the destination is opened (an \<^verbatim>\<open>HTTPError\<close> for a
  status such as 404 or 500, a \<^verbatim>\<open>URLError\<close> for a failed connection); or the
  transfer raises after the destination was opened, which leaves the (partial) file
  behind (\<^verbatim>\<open>ContentTooShortError\<close>).
\<close>

datatype transfer = Saved | Failed_before exn | Failed_after exn

text \<open>What the script does to the outside, in the order it does it.\<close>

datatype event =
  Mkdir
  | Print_download_list
  | Http_get string
  | Print_look
  | Scan_folder
  | Print_starting nat
  | Print_download string
  | Urlretrieve string string
  | Print_not_found string exn
  | Print_done

text \<open>
  The functions of the Python runtime and of the libraries the script calls, taken as
  parameters:
  \<^item> \<open>strptime_Ymd s\<close> is \<^verbatim>\<open>datetime.strptime(s, "%Y%m%d").date()\<close>, \<open>None\<close> when it
    raises \<^verbatim>\<open>ValueError\<close>;
  \<^item> \<open>to_utc_date s\<close> is the day \<^verbatim>\<open>pd.to_datetime(s, utc=True)\<close> falls on in UTC
    (\<^verbatim>\<open>.dt.date\<close>), \<open>None\<close> when the string does not parse;
  \<^item> \<open>py_list S\<close> is \<^verbatim>\<open>list(S)\<close> for a Python set \<open>S\<close>: its elements in the order
    the interpreter iterates them, which the language leaves open.
\<close>

record runtime =
  strptime_Ymd :: "string \<Rightarrow> date option"
  to_utc_date :: "string \<Rightarrow> date option"
  py_list :: "string set \<Rightarrow> string list"

text \<open>
  The world the script runs in: the process environment, whether \<^verbatim>\<open>mkdir\<close> raises,
  what the catalog request returns once parsed into rows (or the exception of
  \<^verbatim>\<open>requests.get\<close>, \<^verbatim>\<open>.json()\<close> or \<^verbatim>\<open>pd.DataFrame\<close>), what each download URL
  answers, and the names of the files in \<^verbatim>\<open>/raw/alternative/tiingo\<close>.
\<close>

record world =
  environ :: "string \<rightharpoonup> string"
  mkdir_error :: "exn option"
  catalog_response :: "exn + catalog_record list"
  remote :: "string \<Rightarrow> transfer"
  folder :: "string list"

text \<open>
  The outcome of a run: the exception it ended with (\<open>None\<close> for a normal exit), the
  files of the folder at the end, and the trace of events.
\<close>

type_synonym outcome = "exn option \<times> string list \<times> event list"

subsection \<open>Lines 14 to 15: the denylist\<close>

definition known_missing_dates :: "string list" where
  "known_missing_dates =
     [''bulkfile_2017-03-11_2017-03-13.tar.gz'',
      ''bulkfile_2018-03-10_2018-03-12.tar.gz'']"

subsection \<open>Lines 24 to 38: filter and de-duplicate\<close>

text \<open>\<^verbatim>\<open>df[mask]\<close>: the rows at which the boolean mask is true, in order.\<close>

definition mask_select :: "'a list \<Rightarrow> bool list \<Rightarrow> 'a list" where
  "mask_select df flags = map fst (filter snd (zip df flags))"

text \<open>
  \<^verbatim>\<open>Series.duplicated(keep='first')\<close>: true at every value that occurred earlier in the
  series. \<open>seen\<close> holds the values met so far.
\<close>

fun duplicated_from :: "string list \<Rightarrow> string list \<Rightarrow> bool list" where
  "duplicated_from seen [] = []"
| "duplicated_from seen (x # xs) = (x \<in> set seen) # duplicated_from (x # seen) xs"

definition duplicated :: "string list \<Rightarrow> bool list" where
  "duplicated xs = duplicated_from [] xs"

text \<open>
  \<^verbatim>\<open>df.sort_index(ascending=False)\<close>: the rows by descending \<^verbatim>\<open>id\<close>. It returns a
  new frame and leaves \<^verbatim>\<open>df\<close> as it is.
\<close>

definition sort_index_descending :: "catalog_record list \<Rightarrow> catalog_record list" where
  "sort_index_descending df = rev (sort_key rec_id df)"

text \<open>
  \<^verbatim>\<open>pd.to_datetime(column, utc=True).dt.date\<close>: every cell as a day in UTC; the whole
  conversion raises when one cell does not parse. A cell that is a date already stays
  that date.
\<close>

definition cell_date :: "runtime \<Rightarrow> cell \<Rightarrow> date option" where
  "cell_date L c = (case c of Raw s \<Rightarrow> to_utc_date L s | Day d \<Rightarrow> Some d)"

fun to_datetime_date :: "runtime \<Rightarrow> cell list \<Rightarrow> date list option" where
  "to_datetime_date L [] = Some []"
| "to_datetime_date L (c # cs) =
     (case cell_date L c of
        None \<Rightarrow> None
      | Some d \<Rightarrow>
          (case to_datetime_date L cs of None \<Rightarrow> None | Some ds \<Rightarrow> Some (d # ds)))"

text \<open>\<^verbatim>\<open>df['startDate'] = column\<close> and \<^verbatim>\<open>df['endDate'] = column\<close>.\<close>

definition assign_startDate :: "catalog_record list \<Rightarrow> date list \<Rightarrow> catalog_record list" where
  "assign_startDate df ds = map2 (\<lambda>r d. r\<lparr>startDate := Day d\<rparr>) df ds"

definition assign_endDate :: "catalog_record list \<Rightarrow> date list \<Rightarrow> catalog_record list" where
  "assign_endDate df ds = map2 (\<lambda>r d. r\<lparr>endDate := Day d\<rparr>) df ds"

text \<open>
  \<^verbatim>\<open>startDate <= @processing_date <= endDate\<close> on one row. Line 38 runs after lines 36
  and 37, so both cells are dates there.
\<close>

definition in_range :: "date \<Rightarrow> catalog_record \<Rightarrow> bool" where
  "in_range processing_date r =
     (case (startDate r, endDate r) of
        (Day a, Day b) \<Rightarrow> a \<le> processing_date \<and> processing_date \<le> b
      | _ \<Rightarrow> False)"

text \<open>
  Lines 24 to 30. An empty response makes a frame with no columns, on which
  \<^verbatim>\<open>set_index('id')\<close> raises \<^verbatim>\<open>KeyError\<close>. The sorted frame of line 26 is bound to
  nothing: line 28 goes on from the frame in response order.
\<close>

definition incremental_first :: "catalog_record list \<Rightarrow> exn + catalog_record list" where
  "incremental_first json =
     (if json = [] then Inl (KeyError ''id'')
      else
        let df = json;
            discarded = sort_index_descending df;
            df = mask_select df (map (\<lambda>r. batchType r = ''incremental'') df);
            df = mask_select df (map Not (duplicated (map filename df)))
        in Inr df)"

text \<open>
  Lines 32 to 38. The date filter runs only when \<^verbatim>\<open>QC_DATAFLEET_DEPLOYMENT_DATE\<close> is
  in the environment; \<^verbatim>\<open>strptime\<close> and the two column conversions raise
  \<^verbatim>\<open>ValueError\<close> on a string they do not parse.
\<close>

definition date_filter ::
    "runtime \<Rightarrow> (string \<rightharpoonup> string) \<Rightarrow> catalog_record list \<Rightarrow> exn + catalog_record list" where
  "date_filter L env df =
     (case env ''QC_DATAFLEET_DEPLOYMENT_DATE'' of
        None \<Rightarrow> Inr df
      | Some s \<Rightarrow>
          (case strptime_Ymd L s of
             None \<Rightarrow> Inl ValueError
           | Some processing_date \<Rightarrow>
               (case to_datetime_date L (map startDate df) of
                  None \<Rightarrow> Inl ValueError
                | Some starts \<Rightarrow>
                    let df = assign_startDate df starts in
                    (case to_datetime_date L (map endDate df) of
                       None \<Rightarrow> Inl ValueError
                     | Some ends \<Rightarrow>
                         let df = assign_endDate df ends in
                         Inr (filter (in_range processing_date) df)))))"

text \<open>Lines 24 to 38: the frame the rest of the script works on.\<close>

definition filter_dedupe ::
    "runtime \<Rightarrow> (string \<rightharpoonup> string) \<Rightarrow> catalog_record list \<Rightarrow> exn + catalog_record list" where
  "filter_dedupe L env json =
     (case incremental_first json of
        Inl e \<Rightarrow> Inl e
      | Inr df \<Rightarrow> date_filter L env df)"

subsection \<open>Lines 40 to 42: the local scan and the diff\<close>

text \<open>Python's \<^verbatim>\<open>str.endswith\<close>, which is what the pattern \<^verbatim>\<open>*.tar.gz\<close> asks of a name.\<close>

definition endswith :: "string \<Rightarrow> string \<Rightarrow> bool" where
  "endswith s suffix =
     (length suffix \<le> length s \<and> drop (length s - length suffix) s = suffix)"

text \<open>
  \<^verbatim>\<open>[f.name for f in raw_data_folder.glob('*.tar.gz')]\<close>: the entries of the folder
  whose name matches the pattern.
\<close>

definition glob_tar_gz :: "string list \<Rightarrow> string list" where
  "glob_tar_gz entries = filter (\<lambda>n. endswith n ''.tar.gz'') entries"

text \<open>
  \<^verbatim>\<open>set(df.filename) - set(present_files) - set(known_missing_dates)\<close>, the set line 42
  turns into a list.
\<close>

definition files_to_download_set :: "catalog_record list \<Rightarrow> string list \<Rightarrow> string set" where
  "files_to_download_set df present_files =
     set (map filename df) - set present_files - set known_missing_dates"

definition files_to_download :: "runtime \<Rightarrow> catalog_record list \<Rightarrow> string list \<Rightarrow> string list" where
  "files_to_download L df present_files = py_list L (files_to_download_set df present_files)"

subsection \<open>Lines 45 to 55: the download loop\<close>

text \<open>
  \<^verbatim>\<open>raw_data_folder / file_name\<close> is a new entry of the folder, named \<^verbatim>\<open>file_name\<close>,
  when the name is a single path component. Any other name (empty, \<^verbatim>\<open>.\<close>, \<^verbatim>\<open>..\<close>, or
  one with a slash) addresses the folder itself or a place outside the folder's own
  entries; the model does not follow it there.
\<close>

definition plain_name :: "string \<Rightarrow> bool" where
  "plain_name n = (n \<noteq> [] \<and> n \<noteq> ''.'' \<and> n \<noteq> ''..'' \<and> CHR ''/'' \<notin> set n)"

definition is_HTTPError :: "exn \<Rightarrow> bool" where
  "is_HTTPError e = (case e of HTTPError code \<Rightarrow> True | _ \<Rightarrow> False)"

text \<open>
  The loop over \<^verbatim>\<open>files_to_download\<close>. Each round looks the row up by filename (the
  first such row; \<^verbatim>\<open>values[0]\<close> of no row raises \<^verbatim>\<open>IndexError\<close>), prints, and calls
  \<^verbatim>\<open>urlretrieve\<close>. An \<^verbatim>\<open>HTTPError\<close> is printed and the loop goes on; any other
  exception leaves the loop and the script.
\<close>

fun download_loop ::
    "(string \<Rightarrow> transfer) \<Rightarrow> catalog_record list \<Rightarrow> string list \<Rightarrow> string list \<Rightarrow> event list
      \<Rightarrow> outcome" where
  "download_loop fetch df [] files tr = (None, files, tr)"
| "download_loop fetch df (bulk_file # rest) files tr =
     (case filter (\<lambda>r. filename r = bulk_file) df of
        [] \<Rightarrow> (Some IndexError, files, tr)
      | row # others \<Rightarrow>
          let u = url row;
              file_name = filename row;
              tr = tr @ [Print_download file_name, Urlretrieve u file_name]
          in
            (case fetch u of
               Failed_before e \<Rightarrow>
                 if is_HTTPError e
                 then download_loop fetch df rest files (tr @ [Print_not_found u e])
                 else (Some e, files, tr)
             | Failed_after e \<Rightarrow>
                 if \<not> plain_name file_name then (Some (Unmodelled_path file_name), files, tr)
                 else if is_HTTPError e
                 then download_loop fetch df rest (List.insert file_name files)
                        (tr @ [Print_not_found u e])
                 else (Some e, List.insert file_name files, tr)
             | Saved \<Rightarrow>
                 if \<not> plain_name file_name then (Some (Unmodelled_path file_name), files, tr)
                 else download_loop fetch df rest (List.insert file_name files) tr))"

subsection \<open>The script\<close>

text \<open>Lines 40 to 58, from the filtered frame on.\<close>

definition sync_files :: "runtime \<Rightarrow> world \<Rightarrow> catalog_record list \<Rightarrow> event list \<Rightarrow> outcome" where
  "sync_files L w df tr =
     (let present_files = glob_tar_gz (folder w);
          todo = files_to_download L df present_files;
          tr = tr @ [Print_look, Scan_folder, Print_starting (length todo)]
      in
        (case download_loop (remote w) df todo (folder w) tr of
           (None, files, tr') \<Rightarrow> (None, files, tr' @ [Print_done])
         | (Some e, files, tr') \<Rightarrow> (Some e, files, tr')))"

definition bulk_download_url :: "string \<Rightarrow> string" where
  "bulk_download_url key = ''https://api.tiingo.com/tiingo/news/bulk_download?token='' @ key"

text \<open>The whole script, lines 12 to 58.\<close>

definition job :: "runtime \<Rightarrow> world \<Rightarrow> outcome" where
  "job L w =
     (case environ w ''TIINGO_API_KEY'' of
        None \<Rightarrow> (Some (KeyError ''TIINGO_API_KEY''), folder w, [])
      | Some key \<Rightarrow>
          (case mkdir_error w of
             Some e \<Rightarrow> (Some e, folder w, [Mkdir])
           | None \<Rightarrow>
               (case catalog_response w of
                  Inl e \<Rightarrow>
                    (Some e, folder w,
                     [Mkdir, Print_download_list, Http_get (bulk_download_url key)])
                | Inr json \<Rightarrow>
                    (case filter_dedupe L (environ w) json of
                       Inl e \<Rightarrow>
                         (Some e, folder w,
                          [Mkdir, Print_download_list, Http_get (bulk_download_url key)])
                     | Inr df \<Rightarrow>
                         sync_files L w df
                           [Mkdir, Print_download_list, Http_get (bulk_download_url key)]))))"

subsection \<open>Auxiliary definitions\<close>

text \<open>
  The rows \<^verbatim>\<open>df[~df.filename.duplicated(keep='first')]\<close> keeps, as a recursion over the
  frame: a row stays when its filename was not met before.
\<close>

fun first_rows :: "string list \<Rightarrow> catalog_record list \<Rightarrow> catalog_record list" where
  "first_rows seen [] = []"
| "first_rows seen (r # rs) =
     (if filename r \<in> set seen then first_rows (filename r # seen) rs
      else r # first_rows (filename r # seen) rs)"

text \<open>A row after lines 36 and 37: both date cells replaced by the day they parse to.\<close>

definition as_dates :: "runtime \<Rightarrow> catalog_record \<Rightarrow> catalog_record" where
  "as_dates L r =
     r\<lparr>startDate := Day (the (cell_date L (startDate r))),
       endDate := Day (the (cell_date L (endDate r)))\<rparr>"

subsection \<open>Sample inputs\<close>

text \<open>
  The records of the specification's scenarios. The days are those of 14 to 17 April
  2023 (ordinals 738624 to 738627).
\<close>

definition rec_a5 :: catalog_record where
  "rec_a5 =
     \<lparr>rec_id = 5, filename = ''a.tar.gz'', url = ''http://x/a'', batchType = ''incremental'',
      startDate = Raw ''2023-04-14T00:00:00+00:00'', endDate = Raw ''2023-04-16T00:00:00+00:00''\<rparr>"

definition rec_a3 :: catalog_record where
  "rec_a3 =
     \<lparr>rec_id = 3, filename = ''a.tar.gz'', url = ''http://x/old-a'', batchType = ''incremental'',
      startDate = Raw ''2023-04-14T00:00:00+00:00'', endDate = Raw ''2023-04-16T00:00:00+00:00''\<rparr>"

definition rec_b7 :: catalog_record where
  "rec_b7 =
     \<lparr>rec_id = 7, filename = ''b.tar.gz'', url = ''http://x/b'', batchType = ''incremental'',
      startDate = Raw ''2023-04-16T00:00:00+00:00'', endDate = Raw ''2023-04-17T00:00:00+00:00''\<rparr>"

definition rec_zip :: catalog_record where
  "rec_zip =
     \<lparr>rec_id = 9, filename = ''a.zip'', url = ''http://x/a.zip'', batchType = ''incremental'',
      startDate = Raw ''2023-04-14T00:00:00+00:00'', endDate = Raw ''2023-04-16T00:00:00+00:00''\<rparr>"

text \<open>
  A runtime for the samples: the two parsers on the strings the samples use, and a set
  listed in ascending order of its names.
\<close>

definition sample_runtime :: runtime where
  "sample_runtime =
     \<lparr>strptime_Ymd = (\<lambda>s. if s = ''20230415'' then Some 738625 else None),
      to_utc_date =
        (\<lambda>s. if s = ''2023-04-14T00:00:00+00:00'' then Some 738624
             else if s = ''2023-04-16T00:00:00+00:00'' then Some 738626
             else if s = ''2023-04-17T00:00:00+00:00'' then Some 738627
             else None),
      py_list = sorted_list_of_set\<rparr>"

text \<open>
  A world for the samples: the key is set, \<^verbatim>\<open>mkdir\<close> succeeds, the catalog request
  returns the given rows, every download succeeds, and the folder holds the given files.
\<close>

definition sample_world :: "catalog_record list \<Rightarrow> string list \<Rightarrow> world" where
  "sample_world json files =
     \<lparr>environ = [''TIINGO_API_KEY'' \<mapsto> ''k''], mkdir_error = None,
      catalog_response = Inr json, remote = (\<lambda>u. Saved), folder = files\<rparr>"

subsection \<open>The specification's error classes\<close>

text \<open>
  The specification sorts transfer errors into the class "not found" and all others.
  Read by its words, "not found" is the HTTP status 404.
\<close>

definition spec_not_found :: "exn \<Rightarrow> bool" where
  "spec_not_found e = (e = HTTPError 404)"

subsection \<open>Facts about the frame operations\<close>

lemma mask_select_map: "mask_select df (map P df) = filter P df"
  by (induction df) (simp_all add: mask_select_def)

lemma dedupe_from:
  "mask_select rs (map Not (duplicated_from seen (map filename rs))) = first_rows seen rs"
  by (induction rs arbitrary: seen) (simp_all add: mask_select_def)

lemma first_rows_subset: "set (first_rows seen rs) \<subseteq> set rs"
  by (induction rs arbitrary: seen) auto

lemma first_rows_names: "filename ` set (first_rows seen rs) = filename ` set rs - set seen"
  by (induction rs arbitrary: seen) auto

lemma first_rows_distinct: "distinct (map filename (first_rows seen rs))"
proof (induction rs arbitrary: seen)
  case Nil
  show ?case by simp
next
  case (Cons r rs)
  have "filename r \<notin> filename ` set (first_rows (filename r # seen) rs)"
    unfolding first_rows_names by simp
  with Cons show ?case by simp
qed

lemma first_rows_find:
  "find (\<lambda>r. filename r = f) (first_rows seen rs) =
     (if f \<in> set seen then None else find (\<lambda>r. filename r = f) rs)"
  by (induction rs arbitrary: seen) auto

lemma first_rows_map:
  "(\<And>r. filename (h r) = filename r) \<Longrightarrow> first_rows seen (map h rs) = map h (first_rows seen rs)"
  by (induction rs arbitrary: seen) simp_all

lemma find_filter: "find P (filter Q xs) = find (\<lambda>x. Q x \<and> P x) xs"
  by (induction xs) auto

lemma incremental_first_Inr:
  "incremental_first json = Inr df \<longleftrightarrow>
     json \<noteq> [] \<and> df = first_rows [] (filter (\<lambda>r. batchType r = ''incremental'') json)"
  by (auto simp: incremental_first_def Let_def mask_select_map duplicated_def dedupe_from)

lemma to_datetime_date_Some:
  "to_datetime_date L cs = Some ds \<Longrightarrow>
     ds = map (\<lambda>c. the (cell_date L c)) cs \<and> list_all (\<lambda>c. cell_date L c \<noteq> None) cs"
  by (induction cs arbitrary: ds) (auto split: option.splits)

lemma assign_startDate_map:
  "assign_startDate df (map (\<lambda>c. f c) (map startDate df)) =
     map (\<lambda>r. r\<lparr>startDate := Day (f (startDate r))\<rparr>) df"
  by (induction df) (simp_all add: assign_startDate_def)

lemma assign_endDate_map:
  "assign_endDate df (map (\<lambda>c. f c) (map endDate df)) =
     map (\<lambda>r. r\<lparr>endDate := Day (f (endDate r))\<rparr>) df"
  by (induction df) (simp_all add: assign_endDate_def)

lemma date_filter_Some:
  assumes "env ''QC_DATAFLEET_DEPLOYMENT_DATE'' = Some s" and "date_filter L env df = Inr out"
  shows "\<exists>D. strptime_Ymd L s = Some D \<and> out = filter (in_range D) (map (as_dates L) df) \<and>
     list_all (\<lambda>r. cell_date L (startDate r) \<noteq> None \<and> cell_date L (endDate r) \<noteq> None) df"
proof -
  from assms obtain D starts ends where D: "strptime_Ymd L s = Some D"
    and st: "to_datetime_date L (map startDate df) = Some starts"
    and en: "to_datetime_date L (map endDate (assign_startDate df starts)) = Some ends"
    and out: "out = filter (in_range D) (assign_endDate (assign_startDate df starts) ends)"
    by (auto simp: date_filter_def Let_def split: option.splits)
  from to_datetime_date_Some [OF st]
  have starts: "starts = map (\<lambda>c. the (cell_date L c)) (map startDate df)"
    and ok1: "list_all (\<lambda>c. cell_date L c \<noteq> None) (map startDate df)" by simp_all
  have df1: "assign_startDate df starts =
      map (\<lambda>r. r\<lparr>startDate := Day (the (cell_date L (startDate r)))\<rparr>) df"
    unfolding starts by (rule assign_startDate_map)
  from to_datetime_date_Some [OF en]
  have ends: "ends = map (\<lambda>c. the (cell_date L c)) (map endDate (assign_startDate df starts))"
    and ok2: "list_all (\<lambda>c. cell_date L c \<noteq> None) (map endDate (assign_startDate df starts))"
    by simp_all
  have df2: "assign_endDate (assign_startDate df starts) ends = map (as_dates L) df"
    unfolding ends assign_endDate_map unfolding df1 by (simp add: as_dates_def)
  have "list_all (\<lambda>r. cell_date L (startDate r) \<noteq> None \<and> cell_date L (endDate r) \<noteq> None) df"
    using ok1 ok2 unfolding df1 by (simp add: list_all_iff)
  with D out df2 show ?thesis by simp
qed

lemma date_filter_None:
  "env ''QC_DATAFLEET_DEPLOYMENT_DATE'' = None \<Longrightarrow> date_filter L env df = Inr df"
  by (simp add: date_filter_def)

lemma filename_as_dates: "filename (as_dates L r) = filename r"
  by (simp add: as_dates_def)

lemma batchType_as_dates: "batchType (as_dates L r) = batchType r"
  by (simp add: as_dates_def)

lemma date_filter_sub:
  assumes "date_filter L env df = Inr out"
  shows "\<exists>P. out = filter P df \<or> out = filter P (map (as_dates L) df)"
proof (cases "env ''QC_DATAFLEET_DEPLOYMENT_DATE''")
  case None
  with assms have "out = filter (\<lambda>r. True) df" by (simp add: date_filter_None)
  then show ?thesis by blast
next
  case (Some s)
  from date_filter_Some [OF Some assms] show ?thesis by blast
qed

lemma filter_dedupe_Inr:
  "filter_dedupe L env json = Inr out \<Longrightarrow>
     \<exists>df. incremental_first json = Inr df \<and> date_filter L env df = Inr out"
  by (auto simp: filter_dedupe_def split: sum.splits)

lemma distinct_filter_le_1:
  "distinct (map filename xs) \<Longrightarrow> length (filter (\<lambda>r. filename r = f) xs) \<le> 1"
proof (induction xs)
  case Nil
  show ?case by simp
next
  case (Cons a xs)
  then have ih: "length (filter (\<lambda>r. filename r = f) xs) \<le> 1"
    and a: "filename a \<notin> filename ` set xs" by simp_all
  show ?case
  proof (cases "filename a = f")
    case True
    with a have "\<forall>x\<in>set xs. filename x \<noteq> f" by (metis imageI)
    then have "filter (\<lambda>r. filename r = f) xs = []"
      by (simp add: filter_empty_conv)
    with True show ?thesis by simp
  next
    case False
    with ih show ?thesis by simp
  qed
qed

lemma download_loop_trace:
  "download_loop fetch df todo files tr = (x, files', tr') \<Longrightarrow> \<exists>s. tr' = tr @ s"
proof (induction todo arbitrary: files tr)
  case Nil
  then show ?case by simp
next
  case (Cons b rest)
  show ?case
  proof (cases "filter (\<lambda>r. filename r = b) df")
    case Nil
    with Cons.prems show ?thesis by simp
  next
    case (Cons row others)
    with Cons.prems Cons.IH show ?thesis
      by (auto simp: Let_def split: transfer.splits if_splits dest!: Cons.IH)
  qed
qed

lemmas sample_defs =
  rec_a5_def rec_a3_def rec_b7_def rec_zip_def sample_runtime_def

lemmas job_defs =
  job_def sync_files_def files_to_download_def files_to_download_set_def glob_tar_gz_def
  endswith_def known_missing_dates_def plain_name_def bulk_download_url_def is_HTTPError_def
  sample_world_def

lemmas frame_defs =
  filter_dedupe_def incremental_first_def date_filter_def mask_select_def duplicated_def
  assign_startDate_def assign_endDate_def in_range_def cell_date_def

subsection \<open>The diff (lines 41 to 42)\<close>

text \<open>
  C3. Whatever the frame and whatever the list of present files, the set line 42 computes
  shares no filename with the present files and none with the denylist.
\<close>

theorem files_to_download_set_disjoint:
  "files_to_download_set df present_files \<inter> set present_files = {} \<and>
   files_to_download_set df present_files \<inter> set known_missing_dates = {}"
  by (auto simp: files_to_download_set_def)

subsection \<open>Filter and de-duplicate (lines 24 to 38)\<close>

text \<open>
  C4. Whenever lines 24 to 38 produce a frame, no two of its rows have the same filename.
\<close>

theorem filter_dedupe_unique_filenames:
  "filter_dedupe L env json = Inr out \<Longrightarrow> distinct (map filename out)"
proof -
  assume "filter_dedupe L env json = Inr out"
  from filter_dedupe_Inr [OF this] obtain df
    where df: "incremental_first json = Inr df" and out: "date_filter L env df = Inr out"
    by blast
  from df have d: "distinct (map filename df)"
    by (simp add: incremental_first_Inr first_rows_distinct)
  have m: "map filename (map (as_dates L) df) = map filename df"
    by (simp add: filename_as_dates)
  from date_filter_sub [OF out] obtain P
    where "out = filter P df \<or> out = filter P (map (as_dates L) df)" by blast
  then show ?thesis
  proof
    assume "out = filter P df"
    with d show ?thesis by (simp add: distinct_map_filter)
  next
    assume o: "out = filter P (map (as_dates L) df)"
    from d have "distinct (map filename (map (as_dates L) df))" unfolding m .
    then show ?thesis unfolding o by (rule distinct_map_filter)
  qed
qed

theorem filter_dedupe_unique_filenames_witness:
  "filter_dedupe sample_runtime Map.empty [rec_a5, rec_b7, rec_a3] = Inr [rec_a5, rec_b7] \<and>
   distinct (map filename [rec_a5, rec_b7])"
proof -
  have h: "filter_dedupe sample_runtime Map.empty [rec_a5, rec_b7, rec_a3] = Inr [rec_a5, rec_b7]"
    by (simp add: frame_defs sample_defs)
  from filter_dedupe_unique_filenames [OF h] h show ?thesis by simp
qed

text \<open>
  C5. Whenever lines 24 to 38 produce a frame, every row of it has the batch type
  \<^verbatim>\<open>incremental\<close>.
\<close>

theorem filter_dedupe_incremental:
  "filter_dedupe L env json = Inr out \<Longrightarrow> \<forall>r\<in>set out. batchType r = ''incremental''"
proof -
  assume "filter_dedupe L env json = Inr out"
  from filter_dedupe_Inr [OF this] obtain df
    where df: "incremental_first json = Inr df" and out: "date_filter L env df = Inr out"
    by blast
  from df have "df = first_rows [] (filter (\<lambda>r. batchType r = ''incremental'') json)"
    by (simp add: incremental_first_Inr)
  then have "set df \<subseteq> set (filter (\<lambda>r. batchType r = ''incremental'') json)"
    using first_rows_subset by blast
  then have d: "\<forall>r\<in>set df. batchType r = ''incremental''" by auto
  from date_filter_sub [OF out] obtain P
    where "out = filter P df \<or> out = filter P (map (as_dates L) df)" by blast
  with d show ?thesis by (auto simp: batchType_as_dates)
qed

theorem filter_dedupe_incremental_witness:
  "filter_dedupe sample_runtime Map.empty [rec_a5\<lparr>batchType := ''full''\<rparr>, rec_b7] = Inr [rec_b7] \<and>
   batchType rec_b7 = ''incremental''"
proof -
  have h: "filter_dedupe sample_runtime Map.empty [rec_a5\<lparr>batchType := ''full''\<rparr>, rec_b7] = Inr [rec_b7]"
    by (simp add: frame_defs sample_defs)
  from filter_dedupe_incremental [OF h] h show ?thesis by simp
qed

text \<open>
  C6. With \<^verbatim>\<open>QC_DATAFLEET_DEPLOYMENT_DATE\<close> set to a string \<open>s\<close>, a frame comes out of
  lines 24 to 38 only if \<open>s\<close> parses to a day \<open>D\<close>, and every row of it is a row of the
  response whose start and end cells, as days in UTC, are \<open>a\<close> and \<open>b\<close> with
  \<open>a \<le> D \<le> b\<close> (the row now holds these days). Without the variable the date cells are
  never read: rewriting them in the response in any way rewrites them in the result the
  same way and changes nothing else.
\<close>

theorem date_filter_range:
  "(envD ''QC_DATAFLEET_DEPLOYMENT_DATE'' = Some s \<and> filter_dedupe L envD json = Inr out \<longrightarrow>
      (\<exists>D. strptime_Ymd L s = Some D \<and>
        list_all (\<lambda>r. \<exists>r0 a b. r0 \<in> set json \<and>
            cell_date L (startDate r0) = Some a \<and> cell_date L (endDate r0) = Some b \<and>
            r = r0\<lparr>startDate := Day a, endDate := Day b\<rparr> \<and> a \<le> D \<and> D \<le> b) out)) \<and>
   (envN ''QC_DATAFLEET_DEPLOYMENT_DATE'' = None \<longrightarrow>
      filter_dedupe L envN (map (\<lambda>r. r\<lparr>startDate := f r, endDate := g r\<rparr>) json) =
        map_sum id (map (\<lambda>r. r\<lparr>startDate := f r, endDate := g r\<rparr>)) (filter_dedupe L envN json))"
proof (intro conjI impI)
  assume "envD ''QC_DATAFLEET_DEPLOYMENT_DATE'' = Some s \<and> filter_dedupe L envD json = Inr out"
  then have s: "envD ''QC_DATAFLEET_DEPLOYMENT_DATE'' = Some s"
    and fd: "filter_dedupe L envD json = Inr out" by simp_all
  from filter_dedupe_Inr [OF fd] obtain df
    where df: "incremental_first json = Inr df" and out: "date_filter L envD df = Inr out"
    by blast
  from df have "df = first_rows [] (filter (\<lambda>r. batchType r = ''incremental'') json)"
    by (simp add: incremental_first_Inr)
  then have sub: "set df \<subseteq> set json"
    using first_rows_subset by fastforce
  from date_filter_Some [OF s out] obtain D where D: "strptime_Ymd L s = Some D"
    and o: "out = filter (in_range D) (map (as_dates L) df)"
    and ok: "list_all (\<lambda>r. cell_date L (startDate r) \<noteq> None \<and> cell_date L (endDate r) \<noteq> None) df"
    by blast
  have "list_all (\<lambda>r. \<exists>r0 a b. r0 \<in> set json \<and>
            cell_date L (startDate r0) = Some a \<and> cell_date L (endDate r0) = Some b \<and>
            r = r0\<lparr>startDate := Day a, endDate := Day b\<rparr> \<and> a \<le> D \<and> D \<le> b) out"
    unfolding list_all_iff
  proof
    fix r assume "r \<in> set out"
    then obtain r0 where r0: "r0 \<in> set df" and r: "r = as_dates L r0" and ir: "in_range D r"
      unfolding o by auto
    from ok r0 obtain a b where a: "cell_date L (startDate r0) = Some a"
      and b: "cell_date L (endDate r0) = Some b"
      by (auto simp: list_all_iff)
    have r': "r = r0\<lparr>startDate := Day a, endDate := Day b\<rparr>"
      unfolding r as_dates_def a b by simp
    from ir have "a \<le> D \<and> D \<le> b" unfolding r' by (simp add: in_range_def)
    with r0 sub a b r'
    show "\<exists>r0 a b. r0 \<in> set json \<and>
            cell_date L (startDate r0) = Some a \<and> cell_date L (endDate r0) = Some b \<and>
            r = r0\<lparr>startDate := Day a, endDate := Day b\<rparr> \<and> a \<le> D \<and> D \<le> b"
      by blast
  qed
  with D show "\<exists>D. strptime_Ymd L s = Some D \<and>
        list_all (\<lambda>r. \<exists>r0 a b. r0 \<in> set json \<and>
            cell_date L (startDate r0) = Some a \<and> cell_date L (endDate r0) = Some b \<and>
            r = r0\<lparr>startDate := Day a, endDate := Day b\<rparr> \<and> a \<le> D \<and> D \<le> b) out"
    by blast
next
  assume n: "envN ''QC_DATAFLEET_DEPLOYMENT_DATE'' = None"
  let ?h = "\<lambda>r. r\<lparr>startDate := f r, endDate := g r\<rparr>"
  have fm: "filter (\<lambda>r. batchType r = ''incremental'') (map ?h json) =
      map ?h (filter (\<lambda>r. batchType r = ''incremental'') json)"
    by (simp add: filter_map comp_def)
  show "filter_dedupe L envN (map ?h json) = map_sum id (map ?h) (filter_dedupe L envN json)"
  proof (cases "json = []")
    case True
    then show ?thesis by (simp add: filter_dedupe_def incremental_first_def)
  next
    case False
    then have 1: "incremental_first json = Inr (first_rows [] (filter (\<lambda>r. batchType r = ''incremental'') json))"
      by (simp add: incremental_first_Inr)
    from False have 2: "incremental_first (map ?h json) =
        Inr (map ?h (first_rows [] (filter (\<lambda>r. batchType r = ''incremental'') json)))"
      by (simp add: incremental_first_Inr fm first_rows_map)
    show ?thesis
      unfolding filter_dedupe_def 1 2 by (simp add: date_filter_def n)
  qed
qed

theorem date_filter_range_witness:
  "filter_dedupe sample_runtime [''QC_DATAFLEET_DEPLOYMENT_DATE'' \<mapsto> ''20230415''] [rec_a5, rec_b7] =
     Inr [rec_a5\<lparr>startDate := Day 738624, endDate := Day 738626\<rparr>] \<and>
   strptime_Ymd sample_runtime ''20230415'' = Some 738625 \<and>
   filter_dedupe sample_runtime Map.empty
     [rec_a5\<lparr>startDate := Raw ''x'', endDate := Raw ''y''\<rparr>,
      rec_b7\<lparr>startDate := Raw ''x'', endDate := Raw ''y''\<rparr>] =
     Inr [rec_a5\<lparr>startDate := Raw ''x'', endDate := Raw ''y''\<rparr>,
          rec_b7\<lparr>startDate := Raw ''x'', endDate := Raw ''y''\<rparr>]"
proof -
  have h: "filter_dedupe sample_runtime [''QC_DATAFLEET_DEPLOYMENT_DATE'' \<mapsto> ''20230415''] [rec_a5, rec_b7] =
     Inr [rec_a5\<lparr>startDate := Day 738624, endDate := Day 738626\<rparr>]"
    by (simp add: frame_defs sample_defs)
  have n: "filter_dedupe sample_runtime Map.empty [rec_a5, rec_b7] = Inr [rec_a5, rec_b7]"
    by (simp add: frame_defs sample_defs)
  note t = date_filter_range [where envD = "[''QC_DATAFLEET_DEPLOYMENT_DATE'' \<mapsto> ''20230415'']"
      and s = "''20230415''" and L = sample_runtime and json = "[rec_a5, rec_b7]"
      and out = "[rec_a5\<lparr>startDate := Day 738624, endDate := Day 738626\<rparr>]"
      and envN = Map.empty and f = "\<lambda>r. Raw ''x''" and g = "\<lambda>r. Raw ''y''"]
  from t h have "\<exists>D. strptime_Ymd sample_runtime ''20230415'' = Some D" by auto
  then have d: "strptime_Ymd sample_runtime ''20230415'' = Some 738625"
    by (simp add: sample_runtime_def)
  from t n have "filter_dedupe sample_runtime Map.empty
     [rec_a5\<lparr>startDate := Raw ''x'', endDate := Raw ''y''\<rparr>,
      rec_b7\<lparr>startDate := Raw ''x'', endDate := Raw ''y''\<rparr>] =
     Inr [rec_a5\<lparr>startDate := Raw ''x'', endDate := Raw ''y''\<rparr>,
          rec_b7\<lparr>startDate := Raw ''x'', endDate := Raw ''y''\<rparr>]"
    by simp
  with h d show ?thesis by blast
qed


subsection \<open>Which duplicate survives (lines 26 to 30)\<close>

text \<open>
  C10. The row lines 24 to 30 keep for a filename \<open>f\<close> is the first row of the response,
  in response order, that is incremental and named \<open>f\<close>; no second row named \<open>f\<close> is
  kept; and the identifiers play no part: renumbering the rows of the response in any
  way keeps the same rows.
\<close>

theorem dedupe_keeps_first_in_response_order:
  "incremental_first json = Inr df \<Longrightarrow>
     find (\<lambda>r. filename r = f) df =
       find (\<lambda>r. batchType r = ''incremental'' \<and> filename r = f) json \<and>
     length (filter (\<lambda>r. filename r = f) df) \<le> 1 \<and>
     incremental_first (map (\<lambda>r. r\<lparr>rec_id := g r\<rparr>) json) =
       Inr (map (\<lambda>r. r\<lparr>rec_id := g r\<rparr>) df)"
proof -
  assume a: "incremental_first json = Inr df"
  then have ne: "json \<noteq> []"
    and df: "df = first_rows [] (filter (\<lambda>r. batchType r = ''incremental'') json)"
    by (simp_all add: incremental_first_Inr)
  have 1: "find (\<lambda>r. filename r = f) df =
       find (\<lambda>r. batchType r = ''incremental'' \<and> filename r = f) json"
    unfolding df by (simp add: first_rows_find find_filter)
  have "distinct (map filename df)" unfolding df by (rule first_rows_distinct)
  then have 2: "length (filter (\<lambda>r. filename r = f) df) \<le> 1"
    by (rule distinct_filter_le_1)
  let ?h = "\<lambda>r. r\<lparr>rec_id := g r\<rparr>"
  have "filter (\<lambda>r. batchType r = ''incremental'') (map ?h json) =
      map ?h (filter (\<lambda>r. batchType r = ''incremental'') json)"
    by (simp add: filter_map comp_def)
  then have 3: "incremental_first (map ?h json) = Inr (map ?h df)"
    using ne unfolding df by (simp add: incremental_first_Inr first_rows_map)
  from 1 2 3 show ?thesis by blast
qed

theorem dedupe_keeps_first_in_response_order_witness:
  "incremental_first [rec_a3, rec_a5] = Inr [rec_a3] \<and>
   find (\<lambda>r. filename r = ''a.tar.gz'') [rec_a3] = Some rec_a3 \<and>
   incremental_first [rec_a3\<lparr>rec_id := 5\<rparr>, rec_a5\<lparr>rec_id := 3\<rparr>] = Inr [rec_a3\<lparr>rec_id := 5\<rparr>]"
proof -
  have h: "incremental_first [rec_a3, rec_a5] = Inr [rec_a3]"
    by (simp add: frame_defs sample_defs)
  from dedupe_keeps_first_in_response_order [OF h, of "''a.tar.gz''" "\<lambda>r. 8 - rec_id r"] h
  show ?thesis by (simp add: sample_defs)
qed


text \<open>
  C1. The specification has the row with the greatest identifier survive among rows of
  one filename. The script keeps the first one in response order instead: for the
  response that lists the row with identifier 3 before the row with identifier 5, both
  named \<^verbatim>\<open>a.tar.gz\<close>, the frame holds the row with identifier 3, and the run fetches
  the file from \<^verbatim>\<open>http://x/old-a\<close>.
\<close>

theorem higher_id_later_is_dropped:
  "filter_dedupe sample_runtime Map.empty [rec_a3, rec_a5] = Inr [rec_a3] \<and>
   job sample_runtime (sample_world [rec_a3, rec_a5] []) =
     (None, [''a.tar.gz''],
      [Mkdir, Print_download_list,
       Http_get ''https://api.tiingo.com/tiingo/news/bulk_download?token=k'',
       Print_look, Scan_folder, Print_starting 1, Print_download ''a.tar.gz'',
       Urlretrieve ''http://x/old-a'' ''a.tar.gz'', Print_done])"
  by (simp add: job_defs frame_defs sample_defs Let_def)

text \<open>
  C9. Lines 24 to 38 read nothing but the response and the variable
  \<^verbatim>\<open>QC_DATAFLEET_DEPLOYMENT_DATE\<close>: two environments that agree on that variable give
  the same result on the same response. They do nothing to the outside: a run in which
  they raise ends exactly as a run in which the catalog request had raised the same
  exception, and a run in which they return a frame goes on to line 40 in the world it
  started in, with the trace as the catalog request left it.
\<close>

theorem filter_dedupe_deterministic_pure:
  "(env1 ''QC_DATAFLEET_DEPLOYMENT_DATE'' = env2 ''QC_DATAFLEET_DEPLOYMENT_DATE'' \<longrightarrow>
      filter_dedupe L env1 json = filter_dedupe L env2 json) \<and>
   (environ w ''TIINGO_API_KEY'' = Some key \<and> mkdir_error w = None \<and>
    catalog_response w = Inr json \<and> filter_dedupe L (environ w) json = Inl e \<longrightarrow>
      job L w = job L (w\<lparr>catalog_response := Inl e\<rparr>)) \<and>
   (environ w ''TIINGO_API_KEY'' = Some key \<and> mkdir_error w = None \<and>
    catalog_response w = Inr json \<and> filter_dedupe L (environ w) json = Inr df \<longrightarrow>
      job L w =
        sync_files L w df [Mkdir, Print_download_list, Http_get (bulk_download_url key)])"
proof (intro conjI impI)
  assume "env1 ''QC_DATAFLEET_DEPLOYMENT_DATE'' = env2 ''QC_DATAFLEET_DEPLOYMENT_DATE''"
  then have eq: "date_filter L env1 d = date_filter L env2 d" for d
    unfolding date_filter_def by simp
  show "filter_dedupe L env1 json = filter_dedupe L env2 json"
    unfolding filter_dedupe_def by (cases "incremental_first json") (simp_all add: eq)
next
  assume "environ w ''TIINGO_API_KEY'' = Some key \<and> mkdir_error w = None \<and>
    catalog_response w = Inr json \<and> filter_dedupe L (environ w) json = Inl e"
  then show "job L w = job L (w\<lparr>catalog_response := Inl e\<rparr>)"
    unfolding job_def by simp
next
  assume "environ w ''TIINGO_API_KEY'' = Some key \<and> mkdir_error w = None \<and>
    catalog_response w = Inr json \<and> filter_dedupe L (environ w) json = Inr df"
  then show "job L w =
        sync_files L w df [Mkdir, Print_download_list, Http_get (bulk_download_url key)]"
    unfolding job_def by simp
qed


theorem filter_dedupe_deterministic_pure_witness:
  "filter_dedupe sample_runtime [''QC_DATAFLEET_DEPLOYMENT_DATE'' \<mapsto> ''20230415''] [rec_a5, rec_b7] =
     filter_dedupe sample_runtime
       [''QC_DATAFLEET_DEPLOYMENT_DATE'' \<mapsto> ''20230415'', ''TIINGO_API_KEY'' \<mapsto> ''k'']
       [rec_a5, rec_b7] \<and>
   job sample_runtime
     ((sample_world [rec_a5] [])\<lparr>environ := [''TIINGO_API_KEY'' \<mapsto> ''k'', ''QC_DATAFLEET_DEPLOYMENT_DATE'' \<mapsto> ''x'']\<rparr>) =
   job sample_runtime
     ((sample_world [rec_a5] [])\<lparr>environ := [''TIINGO_API_KEY'' \<mapsto> ''k'', ''QC_DATAFLEET_DEPLOYMENT_DATE'' \<mapsto> ''x''],
        catalog_response := Inl ValueError\<rparr>) \<and>
   job sample_runtime (sample_world [rec_a5] []) =
     sync_files sample_runtime (sample_world [rec_a5] []) [rec_a5]
       [Mkdir, Print_download_list, Http_get (bulk_download_url ''k'')]"
proof (intro conjI)
  note t = filter_dedupe_deterministic_pure [where L = sample_runtime]
  let ?e1 = "[''QC_DATAFLEET_DEPLOYMENT_DATE'' \<mapsto> ''20230415'']"
  let ?e2 = "[''QC_DATAFLEET_DEPLOYMENT_DATE'' \<mapsto> ''20230415'', ''TIINGO_API_KEY'' \<mapsto> ''k'']"
  have q: "?e1 ''QC_DATAFLEET_DEPLOYMENT_DATE'' = ?e2 ''QC_DATAFLEET_DEPLOYMENT_DATE''" by simp
  show "filter_dedupe sample_runtime ?e1 [rec_a5, rec_b7] = filter_dedupe sample_runtime ?e2 [rec_a5, rec_b7]"
    by (rule t [THEN conjunct1, THEN mp]) (rule q)
  let ?w = "(sample_world [rec_a5] [])\<lparr>environ := [''TIINGO_API_KEY'' \<mapsto> ''k'', ''QC_DATAFLEET_DEPLOYMENT_DATE'' \<mapsto> ''x'']\<rparr>"
  have e: "environ ?w ''TIINGO_API_KEY'' = Some ''k'' \<and> mkdir_error ?w = None \<and>
      catalog_response ?w = Inr [rec_a5] \<and>
      filter_dedupe sample_runtime (environ ?w) [rec_a5] = Inl ValueError"
    by (simp add: frame_defs sample_defs sample_world_def)
  show "job sample_runtime ?w = job sample_runtime (?w\<lparr>catalog_response := Inl ValueError\<rparr>)"
    by (rule t [THEN conjunct2, THEN conjunct1, THEN mp]) (rule e)
  let ?v = "sample_world [rec_a5] []"
  have r: "environ ?v ''TIINGO_API_KEY'' = Some ''k'' \<and> mkdir_error ?v = None \<and>
      catalog_response ?v = Inr [rec_a5] \<and>
      filter_dedupe sample_runtime (environ ?v) [rec_a5] = Inr [rec_a5]"
    by (simp add: frame_defs sample_defs sample_world_def)
  show "job sample_runtime ?v =
     sync_files sample_runtime ?v [rec_a5] [Mkdir, Print_download_list, Http_get (bulk_download_url ''k'')]"
    by (rule t [THEN conjunct2, THEN conjunct2, THEN mp]) (rule r)
qed

subsection \<open>The API key (line 12)\<close>

text \<open>
  C8. Without \<^verbatim>\<open>TIINGO_API_KEY\<close> in the environment the run ends with
  \<^verbatim>\<open>KeyError\<close>, the folder as it was and no event at all: nothing was created,
  requested or written. With the key in the environment the run gets past line 12: its
  first event is the \<^verbatim>\<open>mkdir\<close> of line 18.
\<close>

theorem api_key_required:
  "(environ w ''TIINGO_API_KEY'' = None \<longrightarrow>
      job L w = (Some (KeyError ''TIINGO_API_KEY''), folder w, [])) \<and>
   (environ w ''TIINGO_API_KEY'' = Some key \<longrightarrow>
      (\<exists>x files tr. job L w = (x, files, Mkdir # tr)))"
proof (intro conjI impI)
  assume "environ w ''TIINGO_API_KEY'' = None"
  then show "job L w = (Some (KeyError ''TIINGO_API_KEY''), folder w, [])"
    by (simp add: job_def)
next
  assume k: "environ w ''TIINGO_API_KEY'' = Some key"
  have s: "\<exists>x files tr. sync_files L w df (Mkdir # t) = (x, files, Mkdir # tr)" for df t
  proof -
    let ?tr = "(Mkdir # t) @ [Print_look, Scan_folder, Print_starting (length (files_to_download L df (glob_tar_gz (folder w))))]"
    obtain x files tr' where d: "download_loop (remote w) df (files_to_download L df (glob_tar_gz (folder w))) (folder w) ?tr = (x, files, tr')"
      by (metis prod_cases3)
    from download_loop_trace [OF d] obtain s where "tr' = ?tr @ s" by blast
    with d show ?thesis
      by (cases x) (simp_all add: sync_files_def Let_def)
  qed
  show "\<exists>x files tr. job L w = (x, files, Mkdir # tr)"
    using k s by (auto simp: job_def split: option.splits sum.splits)
qed

theorem api_key_required_witness:
  "job sample_runtime ((sample_world [rec_a5] [])\<lparr>environ := Map.empty\<rparr>) =
     (Some (KeyError ''TIINGO_API_KEY''), [], []) \<and>
   job sample_runtime (sample_world [rec_a5] []) =
     (None, [''a.tar.gz''],
      [Mkdir, Print_download_list,
       Http_get ''https://api.tiingo.com/tiingo/news/bulk_download?token=k'',
       Print_look, Scan_folder, Print_starting 1, Print_download ''a.tar.gz'',
       Urlretrieve ''http://x/a'' ''a.tar.gz'', Print_done])"
proof -
  have a: "environ ((sample_world [rec_a5] [])\<lparr>environ := Map.empty\<rparr>) ''TIINGO_API_KEY'' = None"
    by (simp add: sample_world_def)
  have p: "environ (sample_world [rec_a5] []) ''TIINGO_API_KEY'' = Some ''k''"
    by (simp add: sample_world_def)
  from api_key_required [where w = "(sample_world [rec_a5] [])\<lparr>environ := Map.empty\<rparr>"
      and L = sample_runtime] a
  have 1: "job sample_runtime ((sample_world [rec_a5] [])\<lparr>environ := Map.empty\<rparr>) =
     (Some (KeyError ''TIINGO_API_KEY''), [], [])" by (simp add: sample_world_def)
  from api_key_required [where w = "sample_world [rec_a5] []" and key = "''k''"
      and L = sample_runtime] p
  have 2: "\<exists>x files tr. job sample_runtime (sample_world [rec_a5] []) = (x, files, Mkdir # tr)"
    by blast
  have 3: "job sample_runtime (sample_world [rec_a5] []) =
     (None, [''a.tar.gz''],
      [Mkdir, Print_download_list,
       Http_get ''https://api.tiingo.com/tiingo/news/bulk_download?token=k'',
       Print_look, Scan_folder, Print_starting 1, Print_download ''a.tar.gz'',
       Urlretrieve ''http://x/a'' ''a.tar.gz'', Print_done])"
    by (simp add: job_defs frame_defs sample_defs Let_def)
  from 1 2 3 show ?thesis by blast
qed

subsection \<open>The download loop (lines 45 to 55)\<close>

text \<open>
  C2, as the specification states it, fails: the loop does not single out "not found".
  A download that answers with the HTTP status 500 is printed and skipped like a 404,
  and the next file is fetched.
\<close>

theorem http_500_is_skipped:
  "\<not> spec_not_found (HTTPError 500) \<and>
   download_loop (\<lambda>u. if u = ''http://x/a'' then Failed_before (HTTPError 500) else Saved)
     [rec_a5, rec_b7] [''a.tar.gz'', ''b.tar.gz''] [] [] =
   (None, [''b.tar.gz''],
    [Print_download ''a.tar.gz'', Urlretrieve ''http://x/a'' ''a.tar.gz'',
     Print_not_found ''http://x/a'' (HTTPError 500),
     Print_download ''b.tar.gz'', Urlretrieve ''http://x/b'' ''b.tar.gz''])"
  by (simp add: spec_not_found_def sample_defs is_HTTPError_def plain_name_def Let_def)

text \<open>
  C2, amended. What line 53 catches is \<^verbatim>\<open>HTTPError\<close>, with any status code. When the
  download of one file raises an \<^verbatim>\<open>HTTPError\<close>, the loop prints it and goes on with
  the remaining files. When it raises anything else, the script ends with that
  exception and no further file is attempted. This holds whether the exception comes
  before the destination file is opened or after (then the file stays in the folder).
\<close>

theorem download_loop_error_policy:
  "filter (\<lambda>r. filename r = bulk_file) df = row # others \<Longrightarrow>
   (fetch (url row) = Failed_before (HTTPError code) \<longrightarrow>
      download_loop fetch df (bulk_file # rest) files tr =
        download_loop fetch df rest files
          (tr @ [Print_download bulk_file, Urlretrieve (url row) bulk_file,
                 Print_not_found (url row) (HTTPError code)])) \<and>
   (fetch (url row) = Failed_before e \<and> \<not> is_HTTPError e \<longrightarrow>
      download_loop fetch df (bulk_file # rest) files tr =
        (Some e, files, tr @ [Print_download bulk_file, Urlretrieve (url row) bulk_file])) \<and>
   (fetch (url row) = Failed_after (HTTPError code) \<and> plain_name bulk_file \<longrightarrow>
      download_loop fetch df (bulk_file # rest) files tr =
        download_loop fetch df rest (List.insert bulk_file files)
          (tr @ [Print_download bulk_file, Urlretrieve (url row) bulk_file,
                 Print_not_found (url row) (HTTPError code)])) \<and>
   (fetch (url row) = Failed_after e \<and> \<not> is_HTTPError e \<and> plain_name bulk_file \<longrightarrow>
      download_loop fetch df (bulk_file # rest) files tr =
        (Some e, List.insert bulk_file files,
         tr @ [Print_download bulk_file, Urlretrieve (url row) bulk_file]))"
proof -
  assume f: "filter (\<lambda>r. filename r = bulk_file) df = row # others"
  then have "row \<in> set (filter (\<lambda>r. filename r = bulk_file) df)" by simp
  then have n: "filename row = bulk_file" by simp
  show ?thesis
    by (simp add: f n Let_def is_HTTPError_def)
qed


theorem download_loop_error_policy_witness:
  "download_loop (\<lambda>u. Failed_before (HTTPError 404)) [rec_a5, rec_b7] [''a.tar.gz'', ''b.tar.gz''] [] [] =
     download_loop (\<lambda>u. Failed_before (HTTPError 404)) [rec_a5, rec_b7] [''b.tar.gz''] []
       [Print_download ''a.tar.gz'', Urlretrieve ''http://x/a'' ''a.tar.gz'',
        Print_not_found ''http://x/a'' (HTTPError 404)] \<and>
   download_loop (\<lambda>u. Failed_before URLError) [rec_a5, rec_b7] [''a.tar.gz'', ''b.tar.gz''] [] [] =
     (Some URLError, [], [Print_download ''a.tar.gz'', Urlretrieve ''http://x/a'' ''a.tar.gz'']) \<and>
   download_loop (\<lambda>u. Failed_after (HTTPError 404)) [rec_a5, rec_b7] [''a.tar.gz'', ''b.tar.gz''] [] [] =
     download_loop (\<lambda>u. Failed_after (HTTPError 404)) [rec_a5, rec_b7] [''b.tar.gz''] [''a.tar.gz'']
       [Print_download ''a.tar.gz'', Urlretrieve ''http://x/a'' ''a.tar.gz'',
        Print_not_found ''http://x/a'' (HTTPError 404)] \<and>
   download_loop (\<lambda>u. Failed_after ContentTooShortError) [rec_a5, rec_b7] [''a.tar.gz'', ''b.tar.gz''] [] [] =
     (Some ContentTooShortError, [''a.tar.gz''],
      [Print_download ''a.tar.gz'', Urlretrieve ''http://x/a'' ''a.tar.gz''])"
proof -
  have f: "filter (\<lambda>r. filename r = ''a.tar.gz'') [rec_a5, rec_b7] = rec_a5 # []"
    by (simp add: sample_defs)
  have u: "url rec_a5 = ''http://x/a''" by (simp add: sample_defs)
  have p: "plain_name ''a.tar.gz''" by (simp add: plain_name_def)
  have n1: "\<not> is_HTTPError URLError" and n2: "\<not> is_HTTPError ContentTooShortError"
    by (simp_all add: is_HTTPError_def)
  note t = download_loop_error_policy [OF f, where rest = "[''b.tar.gz'']" and files = "[]" and tr = "[]",
      unfolded u append_Nil]
  have 1: "download_loop (\<lambda>u. Failed_before (HTTPError 404)) [rec_a5, rec_b7] [''a.tar.gz'', ''b.tar.gz''] [] [] =
     download_loop (\<lambda>u. Failed_before (HTTPError 404)) [rec_a5, rec_b7] [''b.tar.gz''] []
       [Print_download ''a.tar.gz'', Urlretrieve ''http://x/a'' ''a.tar.gz'',
        Print_not_found ''http://x/a'' (HTTPError 404)]"
    by (rule t [THEN conjunct1, THEN mp]) (rule refl)
  have 2: "download_loop (\<lambda>u. Failed_before URLError) [rec_a5, rec_b7] [''a.tar.gz'', ''b.tar.gz''] [] [] =
     (Some URLError, [], [Print_download ''a.tar.gz'', Urlretrieve ''http://x/a'' ''a.tar.gz''])"
    by (rule t [THEN conjunct2, THEN conjunct1, THEN mp]) (simp add: n1)
  have 3: "download_loop (\<lambda>u. Failed_after (HTTPError 404)) [rec_a5, rec_b7] [''a.tar.gz'', ''b.tar.gz''] [] [] =
     download_loop (\<lambda>u. Failed_after (HTTPError 404)) [rec_a5, rec_b7] [''b.tar.gz''] [''a.tar.gz'']
       [Print_download ''a.tar.gz'', Urlretrieve ''http://x/a'' ''a.tar.gz'',
        Print_not_found ''http://x/a'' (HTTPError 404)]"
    using t [where fetch = "\<lambda>u. Failed_after (HTTPError 404)" and code = 404, THEN conjunct2, THEN conjunct2, THEN conjunct1] p
    by simp
  have 4: "download_loop (\<lambda>u. Failed_after ContentTooShortError) [rec_a5, rec_b7] [''a.tar.gz'', ''b.tar.gz''] [] [] =
     (Some ContentTooShortError, [''a.tar.gz''],
      [Print_download ''a.tar.gz'', Urlretrieve ''http://x/a'' ''a.tar.gz''])"
    using t [where fetch = "\<lambda>u. Failed_after ContentTooShortError" and e = ContentTooShortError, THEN conjunct2, THEN conjunct2, THEN conjunct2] p n2
    by simp
  from 1 2 3 4 show ?thesis by blast
qed

subsection \<open>A second run (lines 41 to 52)\<close>

text \<open>
  A loop that ends normally and printed no failure has fetched every file of its list:
  each is in the folder and has its \<^verbatim>\<open>urlretrieve\<close> in the trace.
\<close>

lemma download_loop_success:
  "download_loop fetch df todo files tr = (None, files', tr') \<Longrightarrow>
   (\<forall>u e. Print_not_found u e \<notin> set tr') \<Longrightarrow>
     set files' = set files \<union> set todo \<and> (\<forall>n\<in>set todo. \<exists>u. Urlretrieve u n \<in> set tr')"
proof (induction todo arbitrary: files tr)
  case Nil
  then show ?case by simp
next
  case (Cons b rest)
  show ?case
  proof (cases "filter (\<lambda>r. filename r = b) df")
    case Nil
    with Cons.prems(1) show ?thesis by simp
  next
    case (Cons row others)
    then have "row \<in> set (filter (\<lambda>r. filename r = b) df)" by simp
    then have n: "filename row = b" by simp
    let ?tr = "tr @ [Print_download b, Urlretrieve (url row) b]"
    show ?thesis
    proof (cases "fetch (url row)")
      case Saved
      with Cons.prems(1) Cons n have p: "plain_name b"
        and d: "download_loop fetch df rest (List.insert b files) ?tr = (None, files', tr')"
        by (simp_all add: Let_def split: if_splits)
      from Cons.IH [OF d Cons.prems(2)]
      have ih: "set files' = set (List.insert b files) \<union> set rest"
        and ih2: "\<forall>n\<in>set rest. \<exists>u. Urlretrieve u n \<in> set tr'" by simp_all
      from download_loop_trace [OF d] obtain s where "tr' = ?tr @ s" by blast
      then have "Urlretrieve (url row) b \<in> set tr'" by simp
      with ih ih2 show ?thesis by auto
    next
      case (Failed_before e)
      show ?thesis
      proof (cases "is_HTTPError e")
        case True
        with Cons.prems(1) Cons n Failed_before
        have d: "download_loop fetch df rest files (?tr @ [Print_not_found (url row) e]) = (None, files', tr')"
          by (simp add: Let_def)
        from download_loop_trace [OF d] obtain s where "tr' = (?tr @ [Print_not_found (url row) e]) @ s"
          by blast
        then have "Print_not_found (url row) e \<in> set tr'" by simp
        with Cons.prems(2) show ?thesis by blast
      next
        case False
        with Cons.prems(1) Cons n Failed_before show ?thesis by (simp add: Let_def)
      qed
    next
      case (Failed_after e)
      show ?thesis
      proof (cases "plain_name b \<and> is_HTTPError e")
        case True
        with Cons.prems(1) Cons n Failed_after
        have d: "download_loop fetch df rest (List.insert b files) (?tr @ [Print_not_found (url row) e]) =
            (None, files', tr')"
          by (simp add: Let_def)
        from download_loop_trace [OF d] obtain s where "tr' = (?tr @ [Print_not_found (url row) e]) @ s"
          by blast
        then have "Print_not_found (url row) e \<in> set tr'" by simp
        with Cons.prems(2) show ?thesis by blast
      next
        case False
        with Cons.prems(1) Cons n Failed_after show ?thesis
          by (auto simp: Let_def split: if_splits)
      qed
    qed
  qed
qed

lemma sync_files_None:
  assumes "sync_files L w df tr = (None, files', tr')"
  shows "\<exists>t. download_loop (remote w) df (files_to_download L df (glob_tar_gz (folder w))) (folder w)
            (tr @ [Print_look, Scan_folder,
                   Print_starting (length (files_to_download L df (glob_tar_gz (folder w))))]) =
          (None, files', t) \<and> tr' = t @ [Print_done]"
proof -
  let ?todo = "files_to_download L df (glob_tar_gz (folder w))"
  let ?tr = "tr @ [Print_look, Scan_folder, Print_starting (length ?todo)]"
  obtain x f t where d: "download_loop (remote w) df ?todo (folder w) ?tr = (x, f, t)"
    by (metis prod_cases3)
  with assms show ?thesis
    by (cases x) (simp_all add: sync_files_def Let_def)
qed

lemma job_None:
  assumes "job L w = (None, files', tr')"
  shows "\<exists>key json df. environ w ''TIINGO_API_KEY'' = Some key \<and> mkdir_error w = None \<and>
     catalog_response w = Inr json \<and> filter_dedupe L (environ w) json = Inr df \<and>
     sync_files L w df [Mkdir, Print_download_list, Http_get (bulk_download_url key)] =
       (None, files', tr')"
  using assms by (auto simp: job_def split: option.splits sum.splits)

text \<open>
  C7, as the specification states it, fails: the scan of line 41 lists only names that
  match \<^verbatim>\<open>*.tar.gz\<close>, while line 42 takes every filename of the frame. A catalog file
  named \<^verbatim>\<open>a.zip\<close> is fetched by a first run that completes without failure, is in the
  folder afterwards, and is fetched again by the second run.
\<close>

theorem zip_file_is_fetched_again:
  "job sample_runtime (sample_world [rec_zip] []) =
     (None, [''a.zip''],
      [Mkdir, Print_download_list,
       Http_get ''https://api.tiingo.com/tiingo/news/bulk_download?token=k'',
       Print_look, Scan_folder, Print_starting 1, Print_download ''a.zip'',
       Urlretrieve ''http://x/a.zip'' ''a.zip'', Print_done]) \<and>
   job sample_runtime ((sample_world [rec_zip] [])\<lparr>folder := [''a.zip'']\<rparr>) =
     (None, [''a.zip''],
      [Mkdir, Print_download_list,
       Http_get ''https://api.tiingo.com/tiingo/news/bulk_download?token=k'',
       Print_look, Scan_folder, Print_starting 1, Print_download ''a.zip'',
       Urlretrieve ''http://x/a.zip'' ''a.zip'', Print_done])"
  by (simp add: job_defs frame_defs sample_defs Let_def)

text \<open>
  C7, amended. Let a run end normally and print no download failure, let every file it
  fetched have a name the scan of line 41 lists (a single path component that ends in
  \<^verbatim>\<open>.tar.gz\<close>), and let \<^verbatim>\<open>list\<close> of a finite set hold exactly the elements of
  the set. Then a second run in the same world, on the folder the first run left,
  fetches nothing: it scans, prints that it starts the download of 0 files, and ends
  normally with the folder unchanged.
\<close>

theorem second_run_downloads_nothing:
  assumes run1: "job L w = (None, files1, tr1)"
    and nofail: "\<forall>u e. Print_not_found u e \<notin> set tr1"
    and names: "\<forall>u n. Urlretrieve u n \<in> set tr1 \<longrightarrow> plain_name n \<and> endswith n ''.tar.gz''"
    and lists: "\<forall>S. finite S \<longrightarrow> set (py_list L S) = S"
  shows "\<exists>key. environ w ''TIINGO_API_KEY'' = Some key \<and>
     job L (w\<lparr>folder := files1\<rparr>) =
       (None, files1,
        [Mkdir, Print_download_list, Http_get (bulk_download_url key),
         Print_look, Scan_folder, Print_starting 0, Print_done])"
proof -
  from job_None [OF run1] obtain key json df
    where key: "environ w ''TIINGO_API_KEY'' = Some key" and mk: "mkdir_error w = None"
      and cat: "catalog_response w = Inr json" and fd: "filter_dedupe L (environ w) json = Inr df"
      and sf: "sync_files L w df [Mkdir, Print_download_list, Http_get (bulk_download_url key)] =
        (None, files1, tr1)"
    by blast
  let ?S1 = "files_to_download_set df (glob_tar_gz (folder w))"
  let ?todo = "files_to_download L df (glob_tar_gz (folder w))"
  from sync_files_None [OF sf] obtain t
    where d: "download_loop (remote w) df ?todo (folder w)
        ([Mkdir, Print_download_list, Http_get (bulk_download_url key)] @
         [Print_look, Scan_folder, Print_starting (length ?todo)]) = (None, files1, t)"
      and t: "tr1 = t @ [Print_done]"
    by blast
  from nofail t have nf: "\<forall>u e. Print_not_found u e \<notin> set t" by simp
  from download_loop_success [OF d nf]
  have f1: "set files1 = set (folder w) \<union> set ?todo"
    and got: "\<forall>n\<in>set ?todo. \<exists>u. Urlretrieve u n \<in> set t" by simp_all
  have "finite ?S1" by (simp add: files_to_download_set_def)
  with lists have todo: "set ?todo = ?S1" by (simp add: files_to_download_def)
  have "files_to_download_set df (glob_tar_gz files1) = {}"
  proof -
    have "f \<in> set (glob_tar_gz files1)"
      if f: "f \<in> set (map filename df)" and k: "f \<notin> set known_missing_dates" for f
    proof (cases "f \<in> set (glob_tar_gz (folder w))")
      case True
      with f1 show ?thesis by (auto simp: glob_tar_gz_def)
    next
      case False
      with f k have "f \<in> ?S1" by (simp add: files_to_download_set_def)
      with todo have m: "f \<in> set ?todo" by simp
      with got obtain u where "Urlretrieve u f \<in> set t" by blast
      with t names have "endswith f ''.tar.gz''" by auto
      moreover from m f1 have "f \<in> set files1" by simp
      ultimately show ?thesis by (simp add: glob_tar_gz_def)
    qed
    then show ?thesis by (auto simp: files_to_download_set_def)
  qed
  moreover have "py_list L {} = []"
  proof -
    have "finite ({} :: string set)" by simp
    with lists have "set (py_list L {}) = {}" by blast
    then show ?thesis by simp
  qed
  ultimately have e: "files_to_download L df (glob_tar_gz files1) = []"
    by (simp add: files_to_download_def)
  have "job L (w\<lparr>folder := files1\<rparr>) =
       (None, files1,
        [Mkdir, Print_download_list, Http_get (bulk_download_url key),
         Print_look, Scan_folder, Print_starting 0, Print_done])"
    by (simp add: job_def key mk cat fd sync_files_def e)
  with key show ?thesis by blast
qed

theorem second_run_downloads_nothing_witness:
  "job sample_runtime (sample_world [rec_a5, rec_a3] []) =
     (None, [''a.tar.gz''],
      [Mkdir, Print_download_list,
       Http_get ''https://api.tiingo.com/tiingo/news/bulk_download?token=k'',
       Print_look, Scan_folder, Print_starting 1, Print_download ''a.tar.gz'',
       Urlretrieve ''http://x/a'' ''a.tar.gz'', Print_done]) \<and>
   job sample_runtime ((sample_world [rec_a5, rec_a3] [])\<lparr>folder := [''a.tar.gz'']\<rparr>) =
     (None, [''a.tar.gz''],
      [Mkdir, Print_download_list,
       Http_get ''https://api.tiingo.com/tiingo/news/bulk_download?token=k'',
       Print_look, Scan_folder, Print_starting 0, Print_done])"
proof -
  let ?tr = "[Mkdir, Print_download_list,
       Http_get ''https://api.tiingo.com/tiingo/news/bulk_download?token=k'',
       Print_look, Scan_folder, Print_starting 1, Print_download ''a.tar.gz'',
       Urlretrieve ''http://x/a'' ''a.tar.gz'', Print_done]"
  have 1: "job sample_runtime (sample_world [rec_a5, rec_a3] []) = (None, [''a.tar.gz''], ?tr)"
    by (simp add: job_defs frame_defs sample_defs Let_def)
  have 2: "\<forall>u e. Print_not_found u e \<notin> set ?tr" by simp
  have 3: "\<forall>u n. Urlretrieve u n \<in> set ?tr \<longrightarrow> plain_name n \<and> endswith n ''.tar.gz''"
    by (simp add: endswith_def plain_name_def)
  have 4: "\<forall>S. finite S \<longrightarrow> set (py_list sample_runtime S) = S"
    by (simp add: sample_runtime_def)
  from second_run_downloads_nothing [OF 1 2 3 4]
  have "job sample_runtime ((sample_world [rec_a5, rec_a3] [])\<lparr>folder := [''a.tar.gz'']\<rparr>) =
     (None, [''a.tar.gz''],
      [Mkdir, Print_download_list,
       Http_get ''https://api.tiingo.com/tiingo/news/bulk_download?token=k'',
       Print_look, Scan_folder, Print_starting 0, Print_done])"
    by (auto simp: sample_world_def bulk_download_url_def)
  with 1 show ?thesis by blast
qed

subsection \<open>The scenarios of the specification\<close>

text \<open>
  X1. The response lists the row with identifier 5 before the row with identifier 3, both
  named \<^verbatim>\<open>a.tar.gz\<close>; the folder is empty. One file is fetched, from
  \<^verbatim>\<open>http://x/a\<close>.
\<close>

theorem scenario_higher_id_first:
  "job sample_runtime (sample_world [rec_a5, rec_a3] []) =
     (None, [''a.tar.gz''],
      [Mkdir, Print_download_list,
       Http_get ''https://api.tiingo.com/tiingo/news/bulk_download?token=k'',
       Print_look, Scan_folder, Print_starting 1, Print_download ''a.tar.gz'',
       Urlretrieve ''http://x/a'' ''a.tar.gz'', Print_done])"
  by (simp add: job_defs frame_defs sample_defs Let_def)

text \<open>
  X2. The folder holds \<^verbatim>\<open>a.tar.gz\<close> and the catalog lists only that file: nothing is
  fetched.
\<close>

theorem scenario_file_already_present:
  "job sample_runtime (sample_world [rec_a5] [''a.tar.gz'']) =
     (None, [''a.tar.gz''],
      [Mkdir, Print_download_list,
       Http_get ''https://api.tiingo.com/tiingo/news/bulk_download?token=k'',
       Print_look, Scan_folder, Print_starting 0, Print_done])"
  by (simp add: job_defs frame_defs sample_defs Let_def)

text \<open>
  X3. A download that answers 404 is printed, its file stays absent, the next file is
  fetched and the run ends normally.
\<close>

theorem scenario_not_found_is_skipped:
  "job sample_runtime
     ((sample_world [rec_a5, rec_b7] [])
        \<lparr>remote := (\<lambda>u. if u = ''http://x/a'' then Failed_before (HTTPError 404) else Saved)\<rparr>) =
     (None, [''b.tar.gz''],
      [Mkdir, Print_download_list,
       Http_get ''https://api.tiingo.com/tiingo/news/bulk_download?token=k'',
       Print_look, Scan_folder, Print_starting 2,
       Print_download ''a.tar.gz'', Urlretrieve ''http://x/a'' ''a.tar.gz'',
       Print_not_found ''http://x/a'' (HTTPError 404),
       Print_download ''b.tar.gz'', Urlretrieve ''http://x/b'' ''b.tar.gz'', Print_done])"
  by (simp add: job_defs frame_defs sample_defs Let_def)

end
